theory Spec2Isabelle
  imports Complex_Main "HOL-Library.Log_Nat"
begin

section \<open>Python values used by Incidenter\<close>

subsection \<open>Exceptions\<close>

datatype py_error = ZeroDivisionError | KeyError

subsection \<open>Floats\<close>

text \<open>
  A Python float is an IEEE-754 binary64 number. It is represented by its exact value,
  a rational, and every arithmetic operation rounds the exact result to the nearest
  number with a 53-bit significand, ties to even. All the numbers of this program are
  list lengths, small constants and their quotients, far from the overflow and the
  subnormal range, so the exponent is left unbounded.
\<close>

definition pow2 :: "int \<Rightarrow> rat" where
  "pow2 k = (if 0 \<le> k then 2 ^ nat k else 1 / 2 ^ nat (- k))"

definition round_half_even :: "rat \<Rightarrow> int" where
  "round_half_even m =
     (let f = \<lfloor>m\<rfloor>; d = m - of_int f
      in if d < 1 / 2 then f else if 1 / 2 < d then f + 1
         else if even f then f else f + 1)"

text \<open>The exponent \<open>e\<close> with \<open>2 ^ e \<le> a < 2 ^ (e + 1)\<close>, for positive \<open>a\<close>.\<close>

definition binade :: "rat \<Rightarrow> int" where
  "binade a =
     (let (p, d) = quotient_of a; e0 = bitlen p - bitlen d
      in if pow2 e0 \<le> a then e0 else e0 - 1)"

definition rnd :: "rat \<Rightarrow> rat" where
  "rnd q =
     (if q = 0 then 0
      else let a = \<bar>q\<bar>; s = 52 - binade a
           in sgn q * of_int (round_half_even (a * pow2 s)) * pow2 (- s))"

text \<open>A float literal of the source, \<open>float(n)\<close> of an integer, and the operators.\<close>

definition float_lit :: "rat \<Rightarrow> rat" where
  "float_lit q = rnd q"

definition int_to_float :: "int \<Rightarrow> rat" where
  "int_to_float n = rnd (of_int n)"

definition fadd :: "rat \<Rightarrow> rat \<Rightarrow> rat" where
  "fadd a b = rnd (a + b)"

definition fmul :: "rat \<Rightarrow> rat \<Rightarrow> rat" where
  "fmul a b = rnd (a * b)"

text \<open>True division \<open>a / b\<close>: raises on a zero divisor.\<close>

definition fdiv :: "rat \<Rightarrow> rat \<Rightarrow> py_error + rat" where
  "fdiv a b = (if b = 0 then Inl ZeroDivisionError else Inr (rnd (a / b)))"

text \<open>\<open>int(x)\<close> of a float truncates towards zero.\<close>

definition py_int :: "rat \<Rightarrow> int" where
  "py_int x = (if 0 \<le> x then \<lfloor>x\<rfloor> else \<lceil>x\<rceil>)"


subsection \<open>Strings\<close>

text \<open>
  A Python \<open>str\<close> is a sequence of code points; the model has the code points below 256
  (Latin-1), one \<open>char\<close> each, so that \<open>length\<close> is \<open>len\<close>. On this range
  \<open>str.lower\<close> adds 32 to the letters A-Z and to 192-222 except 215, and the white
  space removed by \<open>str.strip\<close> is 9-13, 28-32, 133 and 160.
\<close>

definition lower_char :: "char \<Rightarrow> char" where
  "lower_char c =
     (let n = (of_char c :: nat)
      in if (65 \<le> n \<and> n \<le> 90) \<or> (192 \<le> n \<and> n \<le> 222 \<and> n \<noteq> 215)
         then char_of (n + 32) else c)"

definition lower :: "string \<Rightarrow> string" where
  "lower s = map lower_char s"

definition is_space :: "char \<Rightarrow> bool" where
  "is_space c =
     (let n = (of_char c :: nat)
      in (9 \<le> n \<and> n \<le> 13) \<or> (28 \<le> n \<and> n \<le> 32) \<or> n = 133 \<or> n = 160)"

definition strip :: "string \<Rightarrow> string" where
  "strip s = rev (dropWhile is_space (rev (dropWhile is_space s)))"

fun startswith :: "string \<Rightarrow> string \<Rightarrow> bool" where
  "startswith s [] = True"
| "startswith [] (p # ps) = False"
| "startswith (c # cs) (p # ps) = (c = p \<and> startswith cs ps)"

text \<open>\<open>str_in needle hay\<close> is \<open>needle in hay\<close>, and \<open>hay.find(needle) != -1\<close>.\<close>

fun str_in :: "string \<Rightarrow> string \<Rightarrow> bool" where
  "str_in needle [] = (needle = [])"
| "str_in needle (c # cs) = (startswith (c # cs) needle \<or> str_in needle cs)"

text \<open>\<open>any(term in text for term in terms)\<close>.\<close>

definition any_in :: "string list \<Rightarrow> string \<Rightarrow> bool" where
  "any_in terms text = list_ex (\<lambda>t. str_in t text) terms"

text \<open>\<open>sum(1 for k in keywords if k in text)\<close>.\<close>

definition count_in :: "string list \<Rightarrow> string \<Rightarrow> nat" where
  "count_in keywords text = length (filter (\<lambda>k. str_in k text) keywords)"

text \<open>\<open>s.replace("_", " ")\<close>.\<close>

definition replace_underscore :: "string \<Rightarrow> string" where
  "replace_underscore s = map (\<lambda>c. if c = CHR ''_'' then CHR '' '' else c) s"

text \<open>\<open>str(n)\<close> of a natural number.\<close>

definition digit_char :: "nat \<Rightarrow> char" where
  "digit_char d = char_of (48 + d)"

function str_nat :: "nat \<Rightarrow> string" where
  "str_nat n = (if n < 10 then [digit_char n] else str_nat (n div 10) @ [digit_char (n mod 10)])"
  by pat_completeness auto
termination
  by (relation "measure id") auto

text \<open>
  An f-string is kept as its parts, the literal text and the formatted arguments, in
  order: the decimal form of a float (\<open>repr\<close>) is not modelled. \<open>+\<close> on such strings is
  \<open>@\<close>.
\<close>

datatype fpart = Lit string | IntArg int | FloatArg rat

type_synonym fstr = "fpart list"

text \<open>\<open>d.get(key, default)\<close> on a key that may be absent.\<close>

definition get_or :: "'a \<Rightarrow> 'a option \<Rightarrow> 'a" where
  "get_or d v = (case v of None \<Rightarrow> d | Some x \<Rightarrow> x)"

section \<open>The scorer (incidenter/scoring/scorer.py)\<close>

subsection \<open>Data\<close>

datatype ScoreCategory =
  INVESTIGATION_TECHNIQUE | EVIDENCE_ANALYSIS | THEORY_ACCURACY
| TIME_EFFICIENCY | COMPLETENESS | METHODOLOGY


record ScoreBreakdown =
  category :: ScoreCategory
  points_earned :: int
  points_possible :: int
  feedback :: fstr
  details :: "fstr list"


text \<open>
  The dictionaries the scorer reads. A key that may be absent is an option, read with
  the default the source gives to \<open>get\<close>. \<open>total_time\<close> is a number of seconds or a
  \<open>timedelta\<close>.
\<close>

record evidence =
  ev_id :: "string option"
  ev_type :: "string option"
  ev_source :: "string option"
  ev_importance :: "string option"
  ev_description :: "string option"
  ev_content :: "string option"
  discovered_at :: "rat option"

record action_entry =
  action_timestamp :: rat
  action :: "string option"
  action_details :: "string option"
  action_phase :: string

record theory_entry =
  theory_timestamp :: rat
  theory_text :: "string option"
  theory_phase :: string

datatype py_time = Number rat | Timedelta rat

record solution =
  attack_type :: "string option"
  attack_vector :: "string option"
  key_indicators :: "string list option"

record scenario_data =
  evidence_items :: "evidence list option"
  scenario_solution :: "solution option"
  estimated_duration :: "rat option"
  required_investigation_areas :: "string list option"

record session_data =
  sd_investigation_actions :: "action_entry list option"
  sd_evidence_discovered :: "evidence list option"
  sd_evidence_correlations :: "string list option"
  sd_evidence_interpretations :: "string list option"
  sd_theories_submitted :: "theory_entry list option"
  sd_total_time :: "py_time option"
  sd_areas_investigated :: "string list option"
  sd_critical_evidence_found :: "string list option"


subsection \<open>Weights and grades\<close>


text \<open>The dictionary \<open>grade_thresholds\<close>, in insertion order.\<close>

definition grade_thresholds :: "(int \<times> string) list" where
  "grade_thresholds =
     [(90, ''A+''), (85, ''A''), (80, ''A-''), (75, ''B+''), (70, ''B''), (65, ''B-''),
      (60, ''C+''), (55, ''C''), (50, ''C-''), (45, ''D+''), (40, ''D''), (0, ''F'')]"

text \<open>The loop of \<open>_calculate_grade\<close> over the items, and the \<open>return "F"\<close> after it.\<close>

fun grade_loop :: "rat \<Rightarrow> (int \<times> string) list \<Rightarrow> string" where
  "grade_loop p [] = ''F''"
| "grade_loop p ((threshold, g) # rest) =
     (if of_int threshold \<le> p then g else grade_loop p rest)"

definition calculate_grade :: "rat \<Rightarrow> string" where
  "calculate_grade p = grade_loop p grade_thresholds"

subsection \<open>Sequencing of calls that may raise\<close>

definition bind_err :: "py_error + 'a \<Rightarrow> ('a \<Rightarrow> py_error + 'b) \<Rightarrow> py_error + 'b" where
  "bind_err x f = (case x of Inl e \<Rightarrow> Inl e | Inr v \<Rightarrow> f v)"

subsection \<open>\<open>_score_investigation_technique\<close>\<close>


definition add_some :: "'a option \<Rightarrow> 'a set \<Rightarrow> 'a set" where
  "add_some v S = (case v of None \<Rightarrow> S | Some x \<Rightarrow> insert x S)"









subsection \<open>\<open>_score_evidence_analysis\<close>\<close>


subsection \<open>\<open>_evaluate_theory_accuracy\<close> and \<open>_score_theory_accuracy\<close>\<close>

text \<open>The solution read from a scenario without a \<open>solution\<close> block: the empty dictionary.\<close>

definition empty_solution :: solution where
  "empty_solution = \<lparr>attack_type = None, attack_vector = None, key_indicators = None\<rparr>"

definition theory_elements :: "string list" where
  "theory_elements = [''timeline'', ''motivation'', ''impact'', ''technique'']"

definition evaluate_theory_accuracy :: "theory_entry \<Rightarrow> solution \<Rightarrow> py_error + rat" where
  "evaluate_theory_accuracy th sol =
     (let text = lower (get_or [] (theory_text th));
          atype = lower (get_or [] (attack_type sol));
          avector = lower (get_or [] (attack_vector sol));
          indicators = map lower (get_or [] (key_indicators sol));
          s1 = (if atype \<noteq> [] \<and> str_in atype text then 30 else 0);
          s2 = s1 + (if avector \<noteq> [] \<and> str_in avector text then 25 else 0);
          indicators_found = count_in indicators text
      in bind_err
           (if indicators \<noteq> []
            then bind_err (fdiv (of_nat indicators_found) (of_nat (length indicators)))
                   (\<lambda>q. Inr (fadd s2 (fmul q 30)))
            else Inr s2)
           (\<lambda>s3.
              let elements_mentioned = count_in theory_elements text
              in bind_err (fdiv (of_nat elements_mentioned) (of_nat (length theory_elements)))
                   (\<lambda>q. Inr (min (fadd s3 (fmul q 15)) 100))))"

text \<open>The loop over the theories: the scores, in order.\<close>

fun theory_scores_loop :: "solution \<Rightarrow> theory_entry list \<Rightarrow> py_error + rat list" where
  "theory_scores_loop sol [] = Inr []"
| "theory_scores_loop sol (th # rest) =
     bind_err (evaluate_theory_accuracy th sol) (\<lambda>theory_score.
     bind_err (theory_scores_loop sol rest) (\<lambda>scores. Inr (theory_score # scores)))"

text \<open>\<open>max(theory_scores) if theory_scores else 0\<close>.\<close>

definition max_or_zero :: "rat list \<Rightarrow> rat" where
  "max_or_zero xs = (case xs of [] \<Rightarrow> 0 | x # rest \<Rightarrow> fold max rest x)"

definition score_theory_accuracy ::
    "scenario_data \<Rightarrow> session_data \<Rightarrow> py_error + ScoreBreakdown" where
  "score_theory_accuracy scenario sd =
     (let theories = get_or [] (sd_theories_submitted sd);
          sol = get_or empty_solution (scenario_solution scenario)
      in if theories = []
         then Inr \<lparr>category = THEORY_ACCURACY, points_earned = 0, points_possible = 100,
                   feedback = [Lit ''No theories submitted for evaluation.''],
                   details = [[Lit ''No theories submitted'']]\<rparr>
         else bind_err (theory_scores_loop sol theories) (\<lambda>theory_scores.
           let d1 = map (\<lambda>x. [Lit ''Theory accuracy: '', FloatArg x, Lit ''%'']) theory_scores;
               best_theory_score = max_or_zero theory_scores;
               p1 = py_int best_theory_score;
               bonus = (1 < length (filter (\<lambda>x. 60 \<le> x) theory_scores));
               p2 = (if bonus then p1 + 10 else p1);
               d2 = d1 @ (if bonus then [[Lit ''Bonus: Multiple viable theories developed'']]
                          else []);
               p3 = min p2 100
           in Inr \<lparr>category = THEORY_ACCURACY, points_earned = p3, points_possible = 100,
                   feedback =
                     [Lit ''Theory accuracy score: '', IntArg p3, Lit ''/'', IntArg 100,
                      Lit ''. '',
                      Lit (if 80 \<le> p3 then ''Excellent understanding of the incident.''
                           else if 60 \<le> p3 then ''Good grasp of the incident with minor gaps.''
                           else ''Theory needs refinement - consider reviewing evidence more carefully.'')],
                   details = d2\<rparr>))"

subsection \<open>\<open>_score_time_efficiency\<close>\<close>

text \<open>Truth value of \<open>total_time\<close>: absent, zero and the zero \<open>timedelta\<close> are false.\<close>

fun time_truthy :: "py_time option \<Rightarrow> bool" where
  "time_truthy None = False"
| "time_truthy (Some (Number x)) = (x \<noteq> 0)"
| "time_truthy (Some (Timedelta x)) = (x \<noteq> 0)"

text \<open>The seconds of a time: the number itself, or \<open>total_seconds()\<close>.\<close>

fun seconds_of :: "py_time option \<Rightarrow> rat" where
  "seconds_of None = 0"
| "seconds_of (Some (Number x)) = x"
| "seconds_of (Some (Timedelta x)) = rnd x"


subsection \<open>\<open>_score_completeness\<close>\<close>


subsection \<open>\<open>_score_methodology\<close>\<close>

definition phase_of :: "action_entry \<Rightarrow> string option" where
  "phase_of a =
     (let action_text = lower (get_or [] (action a)) @ '' '' @ lower (get_or [] (action_details a))
      in if any_in [''identify'', ''detect'', ''alert''] action_text then Some ''identification''
         else if any_in [''contain'', ''isolate'', ''block''] action_text then Some ''containment''
         else if any_in [''eradicate'', ''remove'', ''clean''] action_text then Some ''eradication''
         else if any_in [''recover'', ''restore'', ''resume''] action_text then Some ''recovery''
         else if any_in [''lesson'', ''review'', ''improve''] action_text
         then Some ''lessons_learned''
         else None)"

definition score_methodology :: "scenario_data \<Rightarrow> session_data \<Rightarrow> ScoreBreakdown" where
  "score_methodology scenario sd =
     (let actions = get_or [] (sd_investigation_actions sd);
          phases_covered = fold (\<lambda>a S. add_some (phase_of a) S) actions {};
          methodology_points = int (card phases_covered) * 20;
          d1 = [[Lit ''Covered '', IntArg (int (card phases_covered)),
                 Lit '' IR methodology phases'']];
          documented_actions =
            length (filter (\<lambda>a. 20 < length (get_or [] (action_details a))) actions);
          n = int_to_float (int (length actions));
          (p2, d2) =
            (if fmul n (float_lit (8 / 10)) \<le> of_nat documented_actions
             then (methodology_points + 20, d1 @ [[Lit ''Excellent documentation of actions'']])
             else if fmul n (float_lit (5 / 10)) \<le> of_nat documented_actions
             then (methodology_points + 10, d1 @ [[Lit ''Good documentation practices'']])
             else (methodology_points, d1))
      in \<lparr>category = METHODOLOGY, points_earned = p2, points_possible = 100,
          feedback =
            [Lit ''Methodology score: '', IntArg p2, Lit ''/'', IntArg 100, Lit ''. '',
             Lit (if 70 \<le> p2 then ''Strong adherence to IR methodology.''
                  else if 50 \<le> p2 then ''Good methodology with room for improvement.''
                  else ''Consider following established IR frameworks more closely.'')],
          details = d2\<rparr>)"

subsection \<open>\<open>score_game_session\<close>\<close>



definition calculate_efficiency_rating :: "py_time option \<Rightarrow> rat option \<Rightarrow> py_error + string" where
  "calculate_efficiency_rating actual_time expected_time =
     (if \<not> time_truthy actual_time \<or> expected_time = None \<or> expected_time = Some 0
      then Inr ''Unknown''
      else bind_err (fdiv (seconds_of actual_time) (get_or 0 expected_time)) (\<lambda>ratio.
             Inr (if ratio \<le> float_lit (7 / 10) then ''Excellent''
                  else if ratio \<le> float_lit (9 / 10) then ''Very Good''
                  else if ratio \<le> float_lit (11 / 10) then ''Good''
                  else if ratio \<le> float_lit (13 / 10) then ''Average''
                  else if ratio \<le> float_lit (15 / 10) then ''Below Average''
                  else ''Needs Improvement'')))"





subsection \<open>\<open>score_theory\<close>\<close>

text \<open>
  The theory of a theory record is a dictionary from component names to the player's
  answers, kept as the list of its items in insertion order (the keys are distinct).
\<close>

type_synonym theory_dict = "(string \<times> string) list"

text \<open>
  The theory record that the game session passes: \<open>score_theory\<close> reads its key
  \<open>theory\<close> and no other.
\<close>

record theory_record =
  record_timestamp :: rat
  record_theory :: "theory_dict option"
  revealed_clues :: "string list"
  red_herrings_encountered :: "string list"

definition components :: "(string \<times> int) list" where
  "components =
     [(''initial_access'', 20), (''techniques_used'', 20), (''timeline'', 15),
      (''objective'', 15), (''attribution'', 10), (''impact'', 10), (''additional_iocs'', 10)]"

text \<open>\<open>component in theory and theory[component].strip()\<close>.\<close>

definition answered :: "theory_dict \<Rightarrow> string \<Rightarrow> bool" where
  "answered th component =
     (case map_of th component of None \<Rightarrow> False | Some v \<Rightarrow> strip v \<noteq> [])"

text \<open>The body of the loop over the components: the score of one component.\<close>

definition component_score :: "theory_dict \<Rightarrow> string \<Rightarrow> int \<Rightarrow> int" where
  "component_score th component max_points =
     (if answered th component
      then let response_length = length (get_or [] (map_of th component))
           in if 50 < response_length
              then py_int (fmul (int_to_float max_points) (float_lit (9 / 10)))
              else if 20 < response_length
              then py_int (fmul (int_to_float max_points) (float_lit (7 / 10)))
              else py_int (fmul (int_to_float max_points) (float_lit (5 / 10)))
      else 0)"

definition assess_theory_completeness :: "theory_dict \<Rightarrow> py_error + rat" where
  "assess_theory_completeness th =
     (let required_components = [''initial_access'', ''techniques_used'', ''timeline'', ''objective''];
          completed = length (filter (answered th) required_components)
      in fdiv (of_nat completed) (of_nat (length required_components)))"

definition assess_theory_plausibility :: "theory_dict \<Rightarrow> string" where
  "assess_theory_plausibility th =
     (let total_length = sum_list (map (\<lambda>(k, v). length v) th)
      in if 500 < total_length then ''Highly detailed analysis''
         else if 200 < total_length then ''Good level of detail''
         else ''Basic analysis provided'')"

text \<open>
  \<open>str.title\<close>, on the component names, which are lower-case ASCII words: the first
  letter of each word is put in upper case.
\<close>

definition is_ascii_lower :: "char \<Rightarrow> bool" where
  "is_ascii_lower c = (97 \<le> (of_char c :: nat) \<and> (of_char c :: nat) \<le> 122)"

fun title_loop :: "bool \<Rightarrow> string \<Rightarrow> string" where
  "title_loop inside [] = []"
| "title_loop inside (c # cs) =
     (if is_ascii_lower c
      then (if inside then c else char_of ((of_char c :: nat) - 32)) # title_loop True cs
      else c # title_loop False cs)"

definition title :: "string \<Rightarrow> string" where
  "title s = title_loop False s"

text \<open>\<open>max(items, key=value)\<close> and \<open>min(items, key=value)\<close>: the first item that is extreme.\<close>

fun first_max :: "(string \<times> int) \<Rightarrow> (string \<times> int) list \<Rightarrow> (string \<times> int)" where
  "first_max best [] = best"
| "first_max best (x # xs) = first_max (if snd best < snd x then x else best) xs"

fun first_min :: "(string \<times> int) \<Rightarrow> (string \<times> int) list \<Rightarrow> (string \<times> int)" where
  "first_min worst [] = worst"
| "first_min worst (x # xs) = first_min (if snd x < snd worst then x else worst) xs"

definition generate_theory_feedback :: "(string \<times> int) list \<Rightarrow> rat \<Rightarrow> fstr" where
  "generate_theory_feedback scores pc =
     (let overall =
            (if 85 \<le> pc
             then ''Excellent analysis! Your theory demonstrates strong understanding of the incident.''
             else if 70 \<le> pc
             then ''Good analysis with solid reasoning. Some areas could use more detail.''
             else if 55 \<le> pc
             then ''Reasonable analysis, but several areas need more investigation.''
             else ''Basic analysis provided. Consider gathering more evidence before forming conclusions.'')
      in case scores of
           [] \<Rightarrow> [Lit overall]
         | x # xs \<Rightarrow>
             let best_component = first_max x xs;
                 worst_component = first_min x xs
             in [Lit overall, Lit [CHR 0x0A, CHR 0x0A],
                 Lit ''Strongest area: '', Lit (title (replace_underscore (fst best_component))),
                 Lit '' ('', IntArg (snd best_component), Lit ('' points)'' @ [CHR 0x0A])]
                @ (if snd worst_component < snd best_component
                   then [Lit ''Area for improvement: '',
                         Lit (title (replace_underscore (fst worst_component))),
                         Lit [CHR 0x0A]]
                   else []))"

record category_row =
  row_category :: string
  earned_points :: int
  max_points :: int
  row_feedback :: string

record theory_score =
  total_score :: int
  max_possible_score :: int
  theory_percentage :: rat
  theory_grade :: string
  performance_level :: string
  component_scores :: "(string \<times> int) list"
  category_scores :: "category_row list"
  theory_feedback :: fstr
  completeness :: rat
  accuracy_assessment :: string

text \<open>The score of a theory dictionary: \<open>score_theory\<close> after \<open>theory_record["theory"]\<close>.\<close>

definition score_theory_dict :: "theory_dict \<Rightarrow> py_error + theory_score" where
  "score_theory_dict th =
     bind_err (assess_theory_completeness th) (\<lambda>theory_completeness.
     let theory_accuracy = assess_theory_plausibility th;
         scores = map (\<lambda>(component, mp). (component, component_score th component mp)) components;
         total = sum_list (map snd scores);
         max_possible = sum_list (map snd components)
     in bind_err (fdiv (of_int total) (of_int max_possible)) (\<lambda>q.
        let pc = fmul q 100;
            level = (if 90 \<le> pc then ''Outstanding''
                     else if 80 \<le> pc then ''Excellent''
                     else if 70 \<le> pc then ''Good''
                     else if 60 \<le> pc then ''Satisfactory''
                     else ''Needs Improvement'');
            rows = map (\<lambda>(component, score).
                      let mp = get_or 0 (map_of components component)
                      in \<lparr>row_category = title (replace_underscore component),
                          earned_points = score, max_points = mp,
                          row_feedback =
                            (if fmul (int_to_float mp) (float_lit (7 / 10)) < of_int score
                             then ''Good detail provided'' else ''Could use more detail'')\<rparr>)
                     scores
        in Inr \<lparr>total_score = total, max_possible_score = max_possible,
                theory_percentage = pc, theory_grade = calculate_grade pc,
                performance_level = level, component_scores = scores,
                category_scores = rows,
                theory_feedback = generate_theory_feedback scores pc,
                completeness = theory_completeness,
                accuracy_assessment = theory_accuracy\<rparr>))"

definition score_theory :: "theory_record \<Rightarrow> py_error + theory_score" where
  "score_theory tr =
     (case record_theory tr of None \<Rightarrow> Inl KeyError | Some th \<Rightarrow> score_theory_dict th)"

section \<open>The session manager (utils/session_manager.py)\<close>

subsection \<open>Data\<close>

text \<open>
  Instants (\<open>datetime\<close> values, their ISO strings and file modification times) are
  numbers of seconds. The final score is the percentage the web server passes.
\<close>

datatype meta_value = MetaTime rat | MetaStr string

record SessionState =
  session_id :: string
  scenario_id :: string
  scenario_name :: string
  player_name :: string
  start_time :: rat
  current_phase :: string
  investigation_actions :: "action_entry list"
  evidence_discovered :: "evidence list"
  theories_submitted :: "theory_entry list"
  hints_used :: int
  score_checkpoints :: "string list"
  is_completed :: bool
  completion_time :: "rat option"
  final_score :: "rat option"
  session_notes :: string
  metadata :: "(string \<times> meta_value) list"

text \<open>
  A file \<open><session_id>.json\<close> of the sessions directory: its modification time and what
  reading and decoding it gives, \<open>None\<close> when that raises.
\<close>

record session_file =
  mtime :: rat
  parsed :: "SessionState option"

text \<open>
  The manager. Sessions are objects: \<open>current_session\<close> and the cache hold references
  into \<open>heap\<close>, so that a change made through one reference is seen through the other.
  The directory is the list of its files in the order \<open>glob\<close> yields them. Reading,
  writing and deleting files succeed.
\<close>

record SessionManager =
  sessions_dir :: "(string \<times> session_file) list"
  max_sessions :: int
  current_session :: "nat option"
  session_cache :: "(string \<times> nat) list"
  heap :: "nat \<Rightarrow> SessionState"
  next_ref :: nat

subsection \<open>Dictionaries kept as lists of items\<close>

fun dict_set :: "('k \<times> 'v) list \<Rightarrow> 'k \<Rightarrow> 'v \<Rightarrow> ('k \<times> 'v) list" where
  "dict_set [] k v = [(k, v)]"
| "dict_set ((k', v') # rest) k v =
     (if k' = k then (k, v) # rest else (k', v') # dict_set rest k v)"

definition dict_del :: "('k \<times> 'v) list \<Rightarrow> 'k \<Rightarrow> ('k \<times> 'v) list" where
  "dict_del d k = filter (\<lambda>(k', v). k' \<noteq> k) d"

text \<open>The slice \<open>xs[k:]\<close>, for a \<open>k\<close> of either sign.\<close>

definition slice_from :: "'a list \<Rightarrow> int \<Rightarrow> 'a list" where
  "slice_from xs k = (if 0 \<le> k then drop (nat k) xs else drop (nat (int (length xs) + k)) xs)"

subsection \<open>\<open>_cleanup_old_sessions\<close>\<close>

text \<open>The body of the loop over \<open>files_to_delete\<close>.\<close>

definition delete_old :: "string \<times> rat \<Rightarrow> SessionManager \<Rightarrow> SessionManager" where
  "delete_old f m =
     m\<lparr>session_cache := dict_del (session_cache m) (fst f),
       sessions_dir := dict_del (sessions_dir m) (fst f)\<rparr>"

text \<open>
  \<open>session_files.sort(key=mtime, reverse=True)\<close> is a stable sort, newest first:
  \<open>sort_key\<close> on the negated time.
\<close>

definition newest_first :: "(string \<times> rat) list \<Rightarrow> (string \<times> rat) list" where
  "newest_first session_files = sort_key (\<lambda>f. - snd f) session_files"

definition cleanup_old_sessions :: "SessionManager \<Rightarrow> int \<Rightarrow> SessionManager" where
  "cleanup_old_sessions m max_s =
     (let session_files = newest_first (map (\<lambda>(name, f). (name, mtime f)) (sessions_dir m))
      in if max_s < int (length session_files)
         then fold delete_old (slice_from session_files max_s) m
         else m)"

subsection \<open>Saving, creating, loading and resuming\<close>

text \<open>The file of a session written at the instant \<open>now\<close>, replacing an older one.\<close>

definition write_session :: "SessionManager \<Rightarrow> nat \<Rightarrow> rat \<Rightarrow> SessionManager" where
  "write_session m a now =
     (let s = heap m a
      in m\<lparr>sessions_dir :=
             dict_set (sessions_dir m) (session_id s) \<lparr>mtime = now, parsed = Some s\<rparr>\<rparr>)"

text \<open>\<open>if session is None: session = self.current_session\<close>.\<close>

definition session_or_current :: "SessionManager \<Rightarrow> nat option \<Rightarrow> nat option" where
  "session_or_current m session =
     (case session of None \<Rightarrow> current_session m | Some a \<Rightarrow> Some a)"

definition save_session :: "SessionManager \<Rightarrow> nat option \<Rightarrow> rat \<Rightarrow> bool \<times> SessionManager" where
  "save_session m session now =
     (case session_or_current m session of
        None \<Rightarrow> (False, m)
      | Some a \<Rightarrow>
          let m1 = write_session m a now
          in (True, cleanup_old_sessions m1 (max_sessions m1)))"

text \<open>\<open>new_id\<close> is the identifier drawn by \<open>uuid4\<close>.\<close>

definition create_session ::
    "SessionManager \<Rightarrow> string \<Rightarrow> string \<Rightarrow> string \<Rightarrow> string \<Rightarrow> rat \<Rightarrow> nat \<times> SessionManager" where
  "create_session m new_id scen_id scen_name player now =
     (let a = next_ref m;
          session =
            \<lparr>session_id = new_id, scenario_id = scen_id, scenario_name = scen_name,
             player_name = player, start_time = now, current_phase = ''Initial Access'',
             investigation_actions = [], evidence_discovered = [], theories_submitted = [],
             hints_used = 0, score_checkpoints = [], is_completed = False,
             completion_time = None, final_score = None, session_notes = [],
             metadata = [(''created_at'', MetaTime now), (''version'', MetaStr ''1.0'')]\<rparr>;
          m1 = m\<lparr>heap := (heap m)(a := session), next_ref := Suc a,
                 current_session := Some a,
                 session_cache := dict_set (session_cache m) new_id a\<rparr>
      in (a, snd (save_session m1 (Some a) now)))"

definition load_session :: "SessionManager \<Rightarrow> string \<Rightarrow> nat option \<times> SessionManager" where
  "load_session m sid =
     (case map_of (session_cache m) sid of
        Some a \<Rightarrow> (Some a, m)
      | None \<Rightarrow>
          (case map_of (sessions_dir m) sid of
             None \<Rightarrow> (None, m)
           | Some f \<Rightarrow>
               (case parsed f of
                  None \<Rightarrow> (None, m)
                | Some s \<Rightarrow>
                    let a = next_ref m
                    in (Some a,
                        m\<lparr>heap := (heap m)(a := s), next_ref := Suc a,
                          session_cache := dict_set (session_cache m) sid a\<rparr>))))"

definition resume_session :: "SessionManager \<Rightarrow> string \<Rightarrow> nat option \<times> SessionManager" where
  "resume_session m sid =
     (case load_session m sid of
        (None, m1) \<Rightarrow> (None, m1)
      | (Some a, m1) \<Rightarrow>
          if is_completed (heap m1 a) then (None, m1)
          else (Some a, m1\<lparr>current_session := Some a\<rparr>))"

subsection \<open>Recording into the current session\<close>

text \<open>In-place change of the object a reference points to.\<close>

definition modify :: "SessionManager \<Rightarrow> nat \<Rightarrow> (SessionState \<Rightarrow> SessionState) \<Rightarrow> SessionManager" where
  "modify m a f = m\<lparr>heap := (heap m)(a := f (heap m a))\<rparr>"

definition add_investigation_action ::
    "SessionManager \<Rightarrow> string \<Rightarrow> string \<Rightarrow> rat \<Rightarrow> bool \<times> SessionManager" where
  "add_investigation_action m act det now =
     (case current_session m of
        None \<Rightarrow> (False, m)
      | Some a \<Rightarrow>
          let action_entry = \<lparr>action_timestamp = now, action = Some act,
                               action_details = Some det,
                               action_phase = current_phase (heap m a)\<rparr>
          in save_session
               (modify m a (\<lambda>s. s\<lparr>investigation_actions := investigation_actions s @ [action_entry]\<rparr>))
               None now)"

definition add_evidence_discovered ::
    "SessionManager \<Rightarrow> evidence \<Rightarrow> rat \<Rightarrow> bool \<times> SessionManager" where
  "add_evidence_discovered m ev now =
     (case current_session m of
        None \<Rightarrow> (False, m)
      | Some a \<Rightarrow>
          let ev1 = (if discovered_at ev = None then ev\<lparr>discovered_at := Some now\<rparr> else ev)
          in save_session
               (modify m a (\<lambda>s. s\<lparr>evidence_discovered := evidence_discovered s @ [ev1]\<rparr>))
               None now)"

definition add_theory_submitted ::
    "SessionManager \<Rightarrow> string \<Rightarrow> rat \<Rightarrow> bool \<times> SessionManager" where
  "add_theory_submitted m th now =
     (case current_session m of
        None \<Rightarrow> (False, m)
      | Some a \<Rightarrow>
          let theory_entry = \<lparr>theory_timestamp = now, theory_text = Some th,
                               theory_phase = current_phase (heap m a)\<rparr>
          in save_session
               (modify m a (\<lambda>s. s\<lparr>theories_submitted := theories_submitted s @ [theory_entry]\<rparr>))
               None now)"

definition increment_hints_used :: "SessionManager \<Rightarrow> rat \<Rightarrow> bool \<times> SessionManager" where
  "increment_hints_used m now =
     (case current_session m of
        None \<Rightarrow> (False, m)
      | Some a \<Rightarrow> save_session (modify m a (\<lambda>s. s\<lparr>hints_used := hints_used s + 1\<rparr>)) None now)"

definition set_current_phase :: "SessionManager \<Rightarrow> string \<Rightarrow> rat \<Rightarrow> bool \<times> SessionManager" where
  "set_current_phase m phase now =
     (case current_session m of
        None \<Rightarrow> (False, m)
      | Some a \<Rightarrow> save_session (modify m a (\<lambda>s. s\<lparr>current_phase := phase\<rparr>)) None now)"

text \<open>\<open>if final_score:\<close> holds for a score that is given and not zero.\<close>

definition complete_session :: "SessionManager \<Rightarrow> rat option \<Rightarrow> rat \<Rightarrow> bool \<times> SessionManager" where
  "complete_session m score now =
     (case current_session m of
        None \<Rightarrow> (False, m)
      | Some a \<Rightarrow>
          save_session
            (modify m a (\<lambda>s.
               let s1 = s\<lparr>is_completed := True, completion_time := Some now\<rparr>
               in if score \<noteq> None \<and> score \<noteq> Some 0 then s1\<lparr>final_score := score\<rparr> else s1))
            None now)"

subsection \<open>Sequences of calls\<close>

datatype session_call =
  Create string string string string
| Save
| Load string
| Resume string
| AddAction string string
| AddEvidence evidence
| AddTheory string
| IncrementHints
| SetPhase string
| Complete "rat option"

text \<open>One call made at the instant \<open>now\<close>, and a sequence of such calls.\<close>

fun call :: "SessionManager \<Rightarrow> session_call \<times> rat \<Rightarrow> SessionManager" where
  "call m (Create new_id scen_id scen_name player, now) =
     snd (create_session m new_id scen_id scen_name player now)"
| "call m (Save, now) = snd (save_session m None now)"
| "call m (Load sid, now) = snd (load_session m sid)"
| "call m (Resume sid, now) = snd (resume_session m sid)"
| "call m (AddAction act det, now) = snd (add_investigation_action m act det now)"
| "call m (AddEvidence ev, now) = snd (add_evidence_discovered m ev now)"
| "call m (AddTheory th, now) = snd (add_theory_submitted m th now)"
| "call m (IncrementHints, now) = snd (increment_hints_used m now)"
| "call m (SetPhase phase, now) = snd (set_current_phase m phase now)"
| "call m (Complete score, now) = snd (complete_session m score now)"

definition calls :: "SessionManager \<Rightarrow> (session_call \<times> rat) list \<Rightarrow> SessionManager" where
  "calls m cs = fold (\<lambda>c m'. call m' c) cs m"

section \<open>Evidence discovery (server/app.py)\<close>

definition action_mappings :: "(string \<times> string list) list" where
  "action_mappings =
     [(''examine_logs'',
        [''web_log'', ''file_system_log'', ''database_log'', ''security_alert'', ''security_log'',
         ''log'', ''process'', ''registry'', ''memory'', ''email'']),
      (''analyze_network'', [''network_log'', ''network'', ''forensic'']),
      (''check_system'',
        [''file_system_log'', ''security_alert'', ''process'', ''registry'', ''malware'',
         ''forensic'']),
      (''analyze_file'', [''file_system_log'', ''process'', ''malware'', ''forensic'']),
      (''search_database'', [''database_log'', ''log'', ''report'']),
      (''contact_vendor'', [''vendor_advisory'', ''report'', ''intelligence'']),
      (''interview_user'', [''email'', ''witness'', ''report'']),
      (''run_command'',
        [''file_system_log'', ''security_alert'', ''process'', ''registry'', ''forensic'']),
      (''other'',
        [''web_log'', ''network_log'', ''security_alert'', ''email'', ''process'', ''registry'',
         ''memory'', ''network'', ''lateral_movement'', ''log'', ''report'', ''malware'',
         ''intelligence'', ''forensic''])]"

text \<open>\<open>keywords.extend(words)\<close> under a condition.\<close>

definition extend_if :: "bool \<Rightarrow> string list \<Rightarrow> string list" where
  "extend_if c words = (if c then words else [])"

definition check_evidence_keywords :: "string \<Rightarrow> evidence \<Rightarrow> bool" where
  "check_evidence_keywords det item =
     (let details_lower = lower det;
          evidence_content = lower (get_or [] (ev_content item));
          evidence_description = lower (get_or [] (ev_description item));
          evidence_type = lower (get_or [] (ev_type item));
          keywords =
            extend_if (str_in ''email'' evidence_type)
              [''email'', ''phishing'', ''attachment'', ''mail'', ''message'', ''sender'']
            @ extend_if (str_in ''process'' evidence_type)
              [''powershell'', ''cmd'', ''process'', ''execution'', ''command'', ''script'']
            @ extend_if (str_in ''network'' evidence_type)
              [''network'', ''traffic'', ''connection'', ''ip'', ''domain'', ''dns'']
            @ extend_if (str_in ''registry'' evidence_type)
              [''registry'', ''hklm'', ''hkcu'', ''run'', ''startup'', ''persistence'']
            @ extend_if (str_in ''memory'' evidence_type)
              [''memory'', ''lsass'', ''dump'', ''credential'', ''hash'']
            @ extend_if (str_in ''lateral_movement'' evidence_type)
              [''smb'', ''admin$'', ''c$'', ''wmi'', ''lateral'', ''movement'']
            @ extend_if (str_in ''log'' evidence_type)
              [''log'', ''event'', ''audit'', ''system'', ''security'', ''application'']
            @ extend_if (str_in ''report'' evidence_type)
              [''report'', ''analysis'', ''summary'', ''findings'', ''investigation'']
            @ extend_if (str_in ''malware'' evidence_type)
              [''malware'', ''virus'', ''trojan'', ''backdoor'', ''payload'', ''sample'']
            @ extend_if (str_in ''intelligence'' evidence_type)
              [''intelligence'', ''ioc'', ''indicator'', ''threat'', ''attribution'', ''campaign'']
            @ extend_if (str_in ''forensic'' evidence_type)
              [''forensic'', ''analysis'', ''artifact'', ''evidence'', ''timeline'',
               ''investigation'']
            @ extend_if (str_in ''sql'' evidence_description \<or> str_in ''sql'' evidence_content)
              [''sql'', ''injection'', ''database'']
            @ extend_if (str_in ''web shell'' evidence_description
                         \<or> str_in ''aspx'' evidence_content)
              [''web shell'', ''file'', ''aspx'', ''php'']
            @ extend_if (str_in ''vendor'' (lower (get_or [] (ev_source item))))
              [''vendor'', ''advisory'', ''bulletin'', ''patch'']
            @ extend_if (str_in ''hvac'' (lower evidence_description)
                         \<or> str_in ''hvac'' evidence_content)
              [''hvac'', ''cooling'', ''heating'', ''vendor'', ''third-party'']
      in any_in keywords details_lower)"

definition base_chance :: "(string \<times> rat) list" where
  "base_chance =
     [(''critical'', float_lit (8 / 10)), (''high'', float_lit (6 / 10)),
      (''medium'', float_lit (4 / 10)), (''low'', float_lit (2 / 10))]"

definition calculate_discovery_chance :: "evidence \<Rightarrow> bool \<Rightarrow> rat" where
  "calculate_discovery_chance item keywords_match =
     (let importance = get_or ''medium'' (ev_importance item);
          chance = get_or (float_lit (4 / 10)) (map_of base_chance importance)
      in if keywords_match then min (float_lit (95 / 100)) (fadd chance (float_lit (3 / 10)))
         else chance)"

text \<open>
  \<open>discovered_ids\<close>: the identifiers of the evidence of the session that are present
  and not empty.
\<close>

definition discovered_ids :: "evidence list \<Rightarrow> string set" where
  "discovered_ids evs = set (filter (\<lambda>i. i \<noteq> []) (List.map_filter ev_id evs))"

text \<open>\<open>x in xs\<close> for an \<open>x\<close> that may be \<open>None\<close>, in a collection of strings.\<close>

definition opt_in :: "string option \<Rightarrow> string set \<Rightarrow> bool" where
  "opt_in x S = (case x of None \<Rightarrow> False | Some v \<Rightarrow> v \<in> S)"

definition formatted_evidence :: "evidence \<Rightarrow> nat \<Rightarrow> rat \<Rightarrow> evidence" where
  "formatted_evidence item already now =
     \<lparr>ev_id = Some (get_or (''ev_'' @ str_nat (already + 1)) (ev_id item)),
      ev_type = Some (get_or ''unknown'' (ev_type item)),
      ev_source = Some (get_or ''unknown'' (ev_source item)),
      ev_importance = Some (get_or ''medium'' (ev_importance item)),
      ev_description = Some (get_or ''No description available'' (ev_description item)),
      ev_content = Some (get_or ''No content available'' (ev_content item)),
      discovered_at = Some now\<rparr>"

text \<open>
  The loop over the evidence items of the scenario. \<open>draws\<close> is the sequence of values
  that \<open>random.random()\<close> returns and \<open>k\<close> the number of values drawn so far.
\<close>

fun discovery_loop ::
    "string set \<Rightarrow> string list \<Rightarrow> string \<Rightarrow> nat \<Rightarrow> rat \<Rightarrow> (nat \<Rightarrow> rat) \<Rightarrow> nat \<Rightarrow>
     evidence list \<Rightarrow> evidence option" where
  "discovery_loop ids evidence_types det already now draws k [] = None"
| "discovery_loop ids evidence_types det already now draws k (item # rest) =
     (if opt_in (ev_id item) ids
      then discovery_loop ids evidence_types det already now draws k rest
      else if opt_in (ev_type item) (set evidence_types)
      then let keywords_match = check_evidence_keywords det item;
               discovery_chance = calculate_discovery_chance item keywords_match
           in if draws k < discovery_chance
              then Some (formatted_evidence item already now)
              else discovery_loop ids evidence_types det already now draws (Suc k) rest
      else discovery_loop ids evidence_types det already now draws k rest)"

definition check_for_evidence_discovery ::
    "string \<Rightarrow> string \<Rightarrow> scenario_data \<Rightarrow> SessionState \<Rightarrow> (nat \<Rightarrow> rat) \<Rightarrow> rat \<Rightarrow>
     evidence option" where
  "check_for_evidence_discovery act det scenario game_session draws now =
     (if get_or [] (evidence_items scenario) = [] then None
      else let ids = discovered_ids (evidence_discovered game_session);
               evidence_types = get_or [''security_alert''] (map_of action_mappings act)
           in discovery_loop ids evidence_types det
                (length (evidence_discovered game_session)) now draws 0
                (get_or [] (evidence_items scenario)))"

section \<open>Notions used to state the properties\<close>

text \<open>
  The candidates of a call of the resolver: the items that are not yet discovered and
  whose type the action accepts, the two tests of its loop.
\<close>

definition eligible :: "string set \<Rightarrow> string list \<Rightarrow> evidence \<Rightarrow> bool" where
  "eligible ids evidence_types item =
     (\<not> opt_in (ev_id item) ids \<and> opt_in (ev_type item) (set evidence_types))"

text \<open>
  A manager within its bound: the bound is not negative, no two files of the directory
  have the same name, and there are at most \<open>max_sessions\<close> files.
\<close>

definition bounded :: "SessionManager \<Rightarrow> bool" where
  "bounded m = (0 \<le> max_sessions m \<and> distinct (map fst (sessions_dir m))
                \<and> int (length (sessions_dir m)) \<le> max_sessions m)"

section \<open>Example inputs\<close>

definition detailed_answer :: string where
  "detailed_answer = ''The attacker sent a phishing email with a malicious attachment''"

definition detailed_theory :: theory_dict where
  "detailed_theory =
     [(''initial_access'', detailed_answer), (''techniques_used'', detailed_answer),
      (''timeline'', detailed_answer), (''objective'', detailed_answer),
      (''attribution'', detailed_answer), (''impact'', detailed_answer),
      (''additional_iocs'', detailed_answer)]"

definition detailed_record :: theory_record where
  "detailed_record =
     \<lparr>record_timestamp = 0, record_theory = Some detailed_theory, revealed_clues = [],
      red_herrings_encountered = []\<rparr>"

definition empty_scenario :: scenario_data where
  "empty_scenario =
     \<lparr>evidence_items = None, scenario_solution = None, estimated_duration = None,
      required_investigation_areas = None\<rparr>"

definition empty_session :: session_data where
  "empty_session =
     \<lparr>sd_investigation_actions = None, sd_evidence_discovered = None,
      sd_evidence_correlations = None, sd_evidence_interpretations = None,
      sd_theories_submitted = None, sd_total_time = None, sd_areas_investigated = None,
      sd_critical_evidence_found = None\<rparr>"

text \<open>Five actions, one for each phase of the methodology, each with details of 28 characters.\<close>

definition five_phase_actions :: "action_entry list" where
  "five_phase_actions =
     map (\<lambda>act. \<lparr>action_timestamp = 0, action = Some act,
                   action_details = Some ''documented in the case notes'',
                   action_phase = ''Initial Access''\<rparr>)
       [''identify the host'', ''contain the host'', ''remove the implant'',
        ''restore the backup'', ''review the response'']"

definition five_phase_session :: session_data where
  "five_phase_session = empty_session\<lparr>sd_investigation_actions := Some five_phase_actions\<rparr>"



text \<open>The names of the five phases that \<open>_score_methodology\<close> looks for.\<close>

definition all_phases :: "string set" where
  "all_phases =
     {''identification'', ''containment'', ''eradication'', ''recovery'', ''lessons_learned''}"

text \<open>
  A manager with an empty directory, the same manager after a session was created, and
  after that session was completed.
\<close>

definition blank_session :: SessionState where
  "blank_session =
     \<lparr>session_id = [], scenario_id = [], scenario_name = [], player_name = [],
      start_time = 0, current_phase = [], investigation_actions = [],
      evidence_discovered = [], theories_submitted = [], hints_used = 0,
      score_checkpoints = [], is_completed = False, completion_time = None,
      final_score = None, session_notes = [], metadata = []\<rparr>"

definition new_manager :: SessionManager where
  "new_manager =
     \<lparr>sessions_dir = [], max_sessions = 10, current_session = None, session_cache = [],
      heap = (\<lambda>a. blank_session), next_ref = 0\<rparr>"

definition started_manager :: SessionManager where
  "started_manager =
     snd (create_session new_manager ''a1b2c3d4'' ''phishing_001'' ''Phishing'' ''Player'' 1)"


text \<open>
  A scenario with two items of evidence of type email, the first of low and the second
  of critical importance, and draws of which the first is 0.99 and the others are 0.
\<close>

definition first_item :: evidence where
  "first_item =
     \<lparr>ev_id = Some ''E1'', ev_type = Some ''email'', ev_source = Some ''mail gateway'',
      ev_importance = Some ''low'', ev_description = Some ''newsletter'',
      ev_content = Some ''weekly digest'', discovered_at = None\<rparr>"

definition second_item :: evidence where
  "second_item =
     \<lparr>ev_id = Some ''E2'', ev_type = Some ''email'', ev_source = Some ''mail gateway'',
      ev_importance = Some ''critical'', ev_description = Some ''phishing message'',
      ev_content = Some ''invoice attached'', discovered_at = None\<rparr>"

definition two_item_scenario :: scenario_data where
  "two_item_scenario =
     \<lparr>evidence_items = Some [first_item, second_item], scenario_solution = None,
      estimated_duration = None, required_investigation_areas = None\<rparr>"

definition fail_then_succeed :: "nat \<Rightarrow> rat" where
  "fail_then_succeed k = (if k = 0 then 99 / 100 else 0)"

text \<open>The first item recorded twice in the session of \<open>started_manager\<close>.\<close>

definition twice_discovered :: SessionManager where
  "twice_discovered =
     snd (add_evidence_discovered (snd (add_evidence_discovered started_manager first_item 3))
            first_item 4)"


section \<open>Properties of the scorer\<close>

subsection \<open>Auxiliary facts\<close>

lemma bind_err_Inr [simp]: "bind_err (Inr v) f = f v"
  by (simp add: bind_err_def)

lemma bind_err_Inl [simp]: "bind_err (Inl e) f = Inl e"
  by (simp add: bind_err_def)

lemma fdiv_nonzero: "b \<noteq> 0 \<Longrightarrow> fdiv a b = Inr (rnd (a / b))"
  by (simp add: fdiv_def)

lemma count_in_le: "count_in ks text \<le> length ks"
  by (simp add: count_in_def)

lemma lower_Nil [simp]: "lower [] = []"
  by (simp add: lower_def)

subsection \<open>Letter grades\<close>

lemma calculate_grade_cascade:
  "calculate_grade p =
     (if 90 \<le> p then ''A+'' else if 85 \<le> p then ''A'' else if 80 \<le> p then ''A-''
      else if 75 \<le> p then ''B+'' else if 70 \<le> p then ''B'' else if 65 \<le> p then ''B-''
      else if 60 \<le> p then ''C+'' else if 55 \<le> p then ''C'' else if 50 \<le> p then ''C-''
      else if 45 \<le> p then ''D+'' else if 40 \<le> p then ''D'' else ''F'')"
  by (simp add: calculate_grade_def grade_thresholds_def)

lemma float_89999: "85 \<le> float_lit (89999 / 1000) \<and> float_lit (89999 / 1000) < 90"
  by code_simp

text \<open>
  Claim C7. The loop of \<open>_calculate_grade\<close> over \<open>grade_thresholds\<close> returns the grade of
  the first threshold, from 90 down to 40, that the percentage reaches, and F below 40:
  the percentage 90.0 gives A+ and the float 89.999 gives A.
\<close>

theorem calculate_grade_thresholds:
  "calculate_grade p =
     (if 90 \<le> p then ''A+'' else if 85 \<le> p then ''A'' else if 80 \<le> p then ''A-''
      else if 75 \<le> p then ''B+'' else if 70 \<le> p then ''B'' else if 65 \<le> p then ''B-''
      else if 60 \<le> p then ''C+'' else if 55 \<le> p then ''C'' else if 50 \<le> p then ''C-''
      else if 45 \<le> p then ''D+'' else if 40 \<le> p then ''D'' else ''F'')
   \<and> calculate_grade 90 = ''A+''
   \<and> calculate_grade (float_lit (89999 / 1000)) = ''A''"
  using float_89999 by (simp add: calculate_grade_cascade)

subsection \<open>Theory accuracy without a solution\<close>

lemma quarter_0: "fadd 0 (fmul (rnd (of_nat 0 / 4)) 15) = 15 * of_nat 0 / 4"
  by code_simp

lemma quarter_1: "fadd 0 (fmul (rnd (of_nat 1 / 4)) 15) = 15 * of_nat 1 / 4"
  by code_simp

lemma quarter_2: "fadd 0 (fmul (rnd (of_nat 2 / 4)) 15) = 15 * of_nat 2 / 4"
  by code_simp

lemma quarter_3: "fadd 0 (fmul (rnd (of_nat 3 / 4)) 15) = 15 * of_nat 3 / 4"
  by code_simp

lemma quarter_4: "fadd 0 (fmul (rnd (of_nat 4 / 4)) 15) = 15 * of_nat 4 / 4"
  by code_simp

lemma quarter_steps:
  assumes "k \<le> 4"
  shows "fadd 0 (fmul (rnd (of_nat k / 4)) 15) = 15 * of_nat k / 4"
proof -
  from assms consider "k = 0" | "k = 1" | "k = 2" | "k = 3" | "k = 4" by linarith
  then show ?thesis
  proof cases
    case 1 show ?thesis unfolding 1 by (rule quarter_0)
  next
    case 2 show ?thesis unfolding 2 by (rule quarter_1)
  next
    case 3 show ?thesis unfolding 3 by (rule quarter_2)
  next
    case 4 show ?thesis unfolding 4 by (rule quarter_3)
  next
    case 5 show ?thesis unfolding 5 by (rule quarter_4)
  qed
qed

text \<open>
  Claim C5, as stated, fails: against the empty solution the theory text "timeline"
  scores 3.75, not 0.
\<close>

theorem no_solution_counterexample:
  "evaluate_theory_accuracy
     \<lparr>theory_timestamp = 0, theory_text = Some ''timeline'', theory_phase = ''Initial Access''\<rparr>
     empty_solution = Inr (15 / 4)"
  by code_simp

text \<open>
  Claim C5, amended. Against the empty solution \<open>_evaluate_theory_accuracy\<close> never
  raises and returns 15 * k / 4, where k is the number of the four generic elements
  (timeline, motivation, impact, technique) that occur in the lower-cased theory text:
  3.75 for each element, 0 only when none occurs, 15 at most.
\<close>

theorem evaluate_theory_accuracy_no_solution:
  "evaluate_theory_accuracy th empty_solution =
     Inr (15 * of_nat (count_in theory_elements (lower (get_or [] (theory_text th)))) / 4)"
proof -
  let ?k = "count_in theory_elements (lower (get_or [] (theory_text th)))"
  have len: "length theory_elements = 4"
    by (simp add: theory_elements_def)
  have k: "?k \<le> 4"
    using count_in_le [of theory_elements] len by simp
  have small: "15 * rat_of_nat ?k / 4 \<le> 100"
    using k by simp
  have "evaluate_theory_accuracy th empty_solution =
          Inr (min (fadd 0 (fmul (rnd (of_nat ?k / 4)) 15)) 100)"
    by (simp add: evaluate_theory_accuracy_def empty_solution_def get_or_def len fdiv_nonzero
        Let_def)
  also have "\<dots> = Inr (15 * of_nat ?k / 4)"
    using quarter_steps [OF k] small by simp
  finally show ?thesis .
qed

subsection \<open>The quick score of a theory\<close>

lemma nine_tenths_of_20: "py_int (fmul (int_to_float 20) (float_lit (9 / 10))) = 18"
  by code_simp

lemma nine_tenths_of_15: "py_int (fmul (int_to_float 15) (float_lit (9 / 10))) = 13"
  by code_simp

lemma nine_tenths_of_10: "py_int (fmul (int_to_float 10) (float_lit (9 / 10))) = 9"
  by code_simp

lemma percentage_of_89: "fmul (rnd (89 / 100)) 100 = 89"
  by code_simp

lemma dropWhile_keeps: "c \<in> set xs \<Longrightarrow> \<not> P c \<Longrightarrow> c \<in> set (dropWhile P xs)"
  by (induction xs) auto

lemma strip_nonempty: "c \<in> set v \<Longrightarrow> \<not> is_space c \<Longrightarrow> strip v \<noteq> []"
proof -
  assume c: "c \<in> set v" "\<not> is_space c"
  then have "c \<in> set (dropWhile is_space v)"
    by (rule dropWhile_keeps)
  then have "c \<in> set (rev (dropWhile is_space v))"
    by simp
  then have "c \<in> set (dropWhile is_space (rev (dropWhile is_space v)))"
    using c(2) by (rule dropWhile_keeps)
  then have "dropWhile is_space (rev (dropWhile is_space v)) \<noteq> []"
    by (cases "dropWhile is_space (rev (dropWhile is_space v))") simp_all
  then show ?thesis
    unfolding strip_def rev_is_Nil_conv .
qed

lemma detailed_component:
  assumes "map_of th c = Some v" "50 < length v" "strip v \<noteq> []"
  shows "component_score th c mp = py_int (fmul (int_to_float mp) (float_lit (9 / 10)))"
  using assms by (simp add: component_score_def answered_def get_or_def)

lemma all_detailed:
  assumes "record_theory tr = Some th"
    and "\<forall>c \<in> set (map fst components).
           \<exists>v. map_of th c = Some v \<and> 50 < length v \<and> strip v \<noteq> []"
  shows "\<exists>r. score_theory tr = Inr r \<and> total_score r = 89 \<and> max_possible_score r = 100
              \<and> theory_percentage r = 89 \<and> theory_grade r = ''A''
              \<and> performance_level r = ''Excellent''"
proof -
  have each: "component_score th c mp = py_int (fmul (int_to_float mp) (float_lit (9 / 10)))"
    if "c \<in> set (map fst components)" for c mp
    using assms(2) that detailed_component by blast
  have scores:
    "map (\<lambda>(component, mp). (component, component_score th component mp)) components =
       [(''initial_access'', 18), (''techniques_used'', 18), (''timeline'', 13),
        (''objective'', 13), (''attribution'', 9), (''impact'', 9), (''additional_iocs'', 9)]"
    using each
    by (simp add: components_def nine_tenths_of_20 nine_tenths_of_15 nine_tenths_of_10)
  obtain q where q: "assess_theory_completeness th = Inr q"
    by (simp add: assess_theory_completeness_def fdiv_def)
  have maxp: "sum_list (map snd components) = 100"
    by (simp add: components_def)
  show ?thesis
    unfolding score_theory_def score_theory_dict_def
    by (simp add: assms(1) q scores maxp Let_def bind_err_def fdiv_def percentage_of_89
        calculate_grade_def grade_thresholds_def)
qed

lemma detailed_answer_ok: "50 < length detailed_answer \<and> strip detailed_answer \<noteq> []"
proof
  show "50 < length detailed_answer"
    by (simp add: detailed_answer_def)
  have "CHR ''T'' \<in> set detailed_answer"
    by (simp add: detailed_answer_def)
  moreover have "\<not> is_space CHR ''T''"
    by (simp add: is_space_def)
  ultimately show "strip detailed_answer \<noteq> []"
    by (rule strip_nonempty)
qed

lemma detailed_theory_ok:
  "\<forall>c \<in> set (map fst components).
     \<exists>v. map_of detailed_theory c = Some v \<and> 50 < length v \<and> strip v \<noteq> []"
  using detailed_answer_ok by (simp add: components_def detailed_theory_def)

lemma detailed_record_theory: "record_theory detailed_record = Some detailed_theory"
  by (simp add: detailed_record_def)

text \<open>
  Claim C3, as stated, fails: a theory whose seven components are each a sentence of 62
  characters is scored 89, not 90.
\<close>

theorem detailed_theory_counterexample:
  "\<not> isl (score_theory detailed_record)
   \<and> total_score (projr (score_theory detailed_record)) = 89"
  using all_detailed [OF detailed_record_theory detailed_theory_ok] by auto

text \<open>
  Claim C3, amended. When each of the seven components of the theory is present, is longer than 50
  characters and is not blank (\<open>strip\<close> leaves something), \<open>score_theory\<close> returns the
  total 89 of 100: \<open>int\<close> truncates 15 * 0.9 = 13.5 to 13 for the two components worth
  15, so the total is 18 + 18 + 13 + 13 + 9 + 9 + 9. The percentage is 89.0, the grade is
  A and the performance level is Excellent.
\<close>

theorem score_theory_all_detailed:
  assumes "record_theory tr = Some th"
    and "\<forall>c \<in> set (map fst components).
           \<exists>v. map_of th c = Some v \<and> 50 < length v \<and> strip v \<noteq> []"
  shows "\<exists>r. score_theory tr = Inr r \<and> total_score r = 89 \<and> max_possible_score r = 100
              \<and> theory_percentage r = 89 \<and> theory_grade r = ''A''
              \<and> performance_level r = ''Excellent''"
  using assms by (rule all_detailed)

theorem score_theory_all_detailed_witness:
  "\<exists>r. score_theory detailed_record = Inr r \<and> total_score r = 89 \<and> max_possible_score r = 100
        \<and> theory_percentage r = 89 \<and> theory_grade r = ''A''
        \<and> performance_level r = ''Excellent''"
  using score_theory_all_detailed [OF detailed_record_theory detailed_theory_ok] .

subsection \<open>Theory accuracy of a session without theories\<close>

text \<open>
  Claim C8. When the session has no theories (the list is empty or absent),
  \<open>_score_theory_accuracy\<close> returns the breakdown with 0 of 100 points, the feedback
  "No theories submitted for evaluation." and the detail "No theories submitted", whatever
  the scenario is; with a theory in the list the feedback is another text.
\<close>

theorem score_theory_accuracy_no_theories:
  "(get_or [] (sd_theories_submitted sd) = [] \<longrightarrow>
      score_theory_accuracy scenario sd =
        Inr \<lparr>category = THEORY_ACCURACY, points_earned = 0, points_possible = 100,
             feedback = [Lit ''No theories submitted for evaluation.''],
             details = [[Lit ''No theories submitted'']]\<rparr>)
   \<and> (get_or [] (sd_theories_submitted sd) \<noteq> [] \<longrightarrow>
      score_theory_accuracy scenario sd = Inr b \<longrightarrow>
      feedback b \<noteq> [Lit ''No theories submitted for evaluation.''])"
  by (auto simp: score_theory_accuracy_def Let_def bind_err_def split: sum.splits)

theorem score_theory_accuracy_no_theories_witness:
  "get_or [] (sd_theories_submitted empty_session) = []
   \<and> score_theory_accuracy empty_scenario empty_session =
        Inr \<lparr>category = THEORY_ACCURACY, points_earned = 0, points_possible = 100,
             feedback = [Lit ''No theories submitted for evaluation.''],
             details = [[Lit ''No theories submitted'']]\<rparr>"
proof -
  have h: "get_or [] (sd_theories_submitted empty_session) = []"
    by (simp add: empty_session_def get_or_def)
  show ?thesis
    using h score_theory_accuracy_no_theories [of empty_session empty_scenario] by simp
qed

subsection \<open>Methodology points\<close>

lemma methodology_five: "points_earned (score_methodology scenario five_phase_session) = 120"
  by code_simp

lemma phase_of_cases: "phase_of a = None \<or> (\<exists>p \<in> all_phases. phase_of a = Some p)"
  by (simp add: phase_of_def all_phases_def Let_def)

lemma phases_subset:
  "fold (\<lambda>a S. add_some (phase_of a) S) actions S \<subseteq> S \<union> all_phases"
proof (induction actions arbitrary: S)
  case Nil
  then show ?case by simp
next
  case (Cons a actions)
  have "add_some (phase_of a) S \<subseteq> S \<union> all_phases"
    using phase_of_cases [of a] by (auto simp: add_some_def)
  with Cons.IH [of "add_some (phase_of a) S"] show ?case
    by auto
qed

lemma phases_card: "card (fold (\<lambda>a S. add_some (phase_of a) S) actions {}) \<le> 5"
proof -
  have "fold (\<lambda>a S. add_some (phase_of a) S) actions {} \<subseteq> all_phases"
    using phases_subset [of actions "{}"] by simp
  moreover have "finite all_phases" "card all_phases = 5"
    by (simp_all add: all_phases_def)
  ultimately show ?thesis
    by (metis card_mono)
qed

lemma methodology_bound: "points_earned (score_methodology scenario sd) \<le> 120"
  using phases_card [of "get_or [] (sd_investigation_actions sd)"]
  by (simp add: score_methodology_def Let_def split: prod.splits if_splits)

lemma methodology_possible: "points_possible (score_methodology scenario sd) = 100"
  by (simp add: score_methodology_def Let_def split: prod.splits)

text \<open>
  Claim C9. Five actions that name the five phases, each with details longer than 20
  characters, earn 5 * 20 + 20 = 120 methodology points of 100 possible; no session
  earns more than 120, and the possible points are always 100.
\<close>

theorem methodology_exceeds_possible:
  "points_earned (score_methodology scenario five_phase_session) = 120
   \<and> points_possible (score_methodology scenario five_phase_session) = 100
   \<and> points_earned (score_methodology scenario sd) \<le> 120
   \<and> points_possible (score_methodology scenario sd) = 100"
  using methodology_five methodology_bound methodology_possible by simp

subsection \<open>Division by zero\<close>





text \<open>
  \<open>_calculate_efficiency_rating\<close> reads the same two values and answers "Unknown" when
  the expected time is zero.
\<close>

lemma efficiency_rating_guard:
  "calculate_efficiency_rating (Some (Number 60)) (Some 0) = Inr ''Unknown''"
  by code_simp



























section \<open>Properties of the session manager\<close>

subsection \<open>What the cleanup changes\<close>



lemma fold_delete_old_heap [simp]: "heap (fold delete_old fs m) = heap m"
  by (induction fs arbitrary: m) (simp_all add: delete_old_def)

lemma fold_delete_old_current [simp]:
  "current_session (fold delete_old fs m) = current_session m"
  by (induction fs arbitrary: m) (simp_all add: delete_old_def)

lemma fold_delete_old_max [simp]: "max_sessions (fold delete_old fs m) = max_sessions m"
  by (induction fs arbitrary: m) (simp_all add: delete_old_def)

lemma fold_delete_old_next [simp]: "next_ref (fold delete_old fs m) = next_ref m"
  by (induction fs arbitrary: m) (simp_all add: delete_old_def)





lemma map_of_dict_set: "map_of (dict_set d k v) k' = (if k' = k then Some v else map_of d k')"
  by (induction d k v rule: dict_set.induct) auto

lemma cleanup_fields [simp]:
  "max_sessions (cleanup_old_sessions m k) = max_sessions m"
  "heap (cleanup_old_sessions m k) = heap m"
  "current_session (cleanup_old_sessions m k) = current_session m"
  "next_ref (cleanup_old_sessions m k) = next_ref m"
  by (simp_all add: cleanup_old_sessions_def Let_def)

lemma write_session_fields [simp]:
  "max_sessions (write_session m a now) = max_sessions m"
  "current_session (write_session m a now) = current_session m"
  "heap (write_session m a now) = heap m"
  "session_cache (write_session m a now) = session_cache m"
  "next_ref (write_session m a now) = next_ref m"
  by (simp_all add: write_session_def Let_def)

lemma modify_fields [simp]:
  "max_sessions (modify m a f) = max_sessions m"
  "sessions_dir (modify m a f) = sessions_dir m"
  "current_session (modify m a f) = current_session m"
  "session_cache (modify m a f) = session_cache m"
  by (simp_all add: modify_def)

lemma save_session_Some:
  "session_or_current m session = Some a \<Longrightarrow>
   save_session m session now =
     (True, cleanup_old_sessions (write_session m a now) (max_sessions m))"
  by (simp add: save_session_def Let_def)


lemma save_session_max [simp]:
  "max_sessions (snd (save_session m session now)) = max_sessions m"
  by (simp add: save_session_def Let_def split: option.splits)

lemma save_session_heap [simp]: "heap (snd (save_session m session now)) = heap m"
  by (simp add: save_session_def Let_def split: option.splits)

subsection \<open>Resuming\<close>


lemma started_ok:
  "fst (load_session started_manager ''a1b2c3d4'') = Some 0
   \<and> \<not> is_completed (heap (snd (load_session started_manager ''a1b2c3d4'')) 0)
   \<and> current_session started_manager = Some 0
   \<and> map_of (session_cache started_manager) (session_id (heap started_manager 0)) = Some 0"
  by code_simp




subsection \<open>Retention\<close>











lemma bounded_modify [simp]: "bounded (modify m a f) = bounded m"
  by (simp add: bounded_def)

lemma load_session_dir [simp]:
  "sessions_dir (snd (load_session m sid)) = sessions_dir m"
  "max_sessions (snd (load_session m sid)) = max_sessions m"
  by (simp_all add: load_session_def Let_def split: option.splits)

lemma resume_session_dir [simp]:
  "sessions_dir (snd (resume_session m sid)) = sessions_dir m"
  "max_sessions (snd (resume_session m sid)) = max_sessions m"
proof -
  obtain r m1 where l: "load_session m sid = (r, m1)"
    by (cases "load_session m sid")
  then have "sessions_dir m1 = sessions_dir m" "max_sessions m1 = max_sessions m"
    using load_session_dir [of m sid] by simp_all
  then show "sessions_dir (snd (resume_session m sid)) = sessions_dir m"
    and "max_sessions (snd (resume_session m sid)) = max_sessions m"
    using l by (simp_all add: resume_session_def split: option.splits)
qed



lemma call_max [simp]: "max_sessions (call m c) = max_sessions m"
proof (cases c)
  case (Pair op now)
  show ?thesis
    by (cases op)
      (simp_all add: Pair create_session_def add_investigation_action_def
        add_evidence_discovered_def add_theory_submitted_def increment_hints_used_def
        set_current_phase_def complete_session_def Let_def split: option.splits)
qed

lemma calls_max [simp]: "max_sessions (calls m cs) = max_sessions m"
  unfolding calls_def by (induction cs arbitrary: m) simp_all



section \<open>Properties of evidence discovery\<close>

lemma loop_as_find:
  "discovery_loop ids evidence_types det already now draws k items =
     map_option (\<lambda>(j, item). formatted_evidence item already now)
       (find (\<lambda>(j, item). draws j
                < calculate_discovery_chance item (check_evidence_keywords det item))
          (enumerate k (filter (eligible ids evidence_types) items)))"
  by (induction items arbitrary: k) (simp_all add: eligible_def Let_def)

text \<open>
  Claim C2, as stated, fails: the draw 0.99 for the first candidate E1 fails, and the
  same call goes on to the second candidate E2 and returns it.
\<close>

theorem later_candidate_counterexample:
  "\<not> fail_then_succeed 0
       < calculate_discovery_chance first_item
           (check_evidence_keywords ''check the mail server'' first_item)
   \<and> map_option ev_id
        (check_for_evidence_discovery ''examine_logs'' ''check the mail server''
           two_item_scenario blank_session fail_then_succeed 0) = Some (Some ''E2'')"
  by code_simp

text \<open>
  Claim C2, amended. The resolver goes through the candidates (the items not yet
  discovered whose type the action accepts) in the order the scenario declares, draws a
  value for each, and returns the first candidate whose draw is below its discovery
  chance; it returns \<open>None\<close> when the draw of every candidate fails.
\<close>

theorem discovery_tries_every_candidate:
  "check_for_evidence_discovery act det scenario game_session draws now =
     map_option (\<lambda>(j, item). formatted_evidence item (length (evidence_discovered game_session)) now)
       (find (\<lambda>(j, item). draws j
                < calculate_discovery_chance item (check_evidence_keywords det item))
          (enumerate 0
             (filter (eligible (discovered_ids (evidence_discovered game_session))
                        (get_or [''security_alert''] (map_of action_mappings act)))
                (get_or [] (evidence_items scenario)))))"
  by (simp add: check_for_evidence_discovery_def loop_as_find Let_def)

lemma discovered_ids_iff:
  "i \<in> discovered_ids evs \<longleftrightarrow> i \<noteq> [] \<and> Some i \<in> ev_id ` set evs"
proof -
  have "set (List.map_filter ev_id evs) = {j. Some j \<in> ev_id ` set evs}"
    by (induction evs) (auto split: option.splits)
  then show ?thesis
    by (auto simp: discovered_ids_def)
qed

lemma loop_result:
  "discovery_loop ids evidence_types det already now draws k items = Some found \<Longrightarrow>
   \<exists>item \<in> set items. \<not> opt_in (ev_id item) ids \<and> found = formatted_evidence item already now"
  by (induction items arbitrary: k) (auto simp: Let_def split: if_splits)

lemma resolver_skips_discovered:
  assumes "check_for_evidence_discovery act det scenario game_session draws now = Some found"
    and "\<forall>item \<in> set (get_or [] (evidence_items scenario)).
           ev_id item \<noteq> None \<and> ev_id item \<noteq> Some []"
  shows "ev_id found \<notin> ev_id ` set (evidence_discovered game_session)"
proof -
  from assms(1) obtain item where item: "item \<in> set (get_or [] (evidence_items scenario))"
      "\<not> opt_in (ev_id item) (discovered_ids (evidence_discovered game_session))"
      "found = formatted_evidence item (length (evidence_discovered game_session)) now"
    using loop_result by (fastforce simp: check_for_evidence_discovery_def Let_def split: if_splits)
  from assms(2) item(1) obtain i where i: "ev_id item = Some i" "i \<noteq> []"
    by auto
  have "ev_id found = Some i"
    using item(3) i(1) by (simp add: formatted_evidence_def get_or_def)
  moreover have "i \<notin> discovered_ids (evidence_discovered game_session)"
    using item(2) i(1) by (simp add: opt_in_def)
  ultimately show ?thesis
    using i(2) by (simp add: discovered_ids_iff)
qed

lemma resolver_example:
  "check_for_evidence_discovery ''examine_logs'' ''check the mail server''
     two_item_scenario blank_session fail_then_succeed 3
   = Some (formatted_evidence second_item 0 3)"
  by code_simp

subsection \<open>Recording discovered evidence\<close>

text \<open>
  Claim C1, as stated, fails: after two calls of \<open>add_evidence_discovered\<close> with the item
  E1 the list of the session has two entries with the identifier E1.
\<close>

theorem twice_discovered_counterexample:
  "map ev_id (evidence_discovered (heap twice_discovered 0)) = [Some ''E1'', Some ''E1'']"
  by code_simp

text \<open>
  Claim C1, amended. With a current session, \<open>add_evidence_discovered\<close> succeeds and
  appends its argument, stamped with the time when it has no \<open>discovered_at\<close>, whether
  or not its identifier is already in the list. Duplicates are avoided by the resolver:
  for a scenario whose items all have an identifier that is not empty, the evidence that
  \<open>check_for_evidence_discovery\<close> returns for a session has an identifier that is not
  in the list of that session.
\<close>

theorem add_evidence_discovered_appends:
  "(current_session m = Some a \<longrightarrow>
      fst (add_evidence_discovered m ev now)
      \<and> evidence_discovered (heap (snd (add_evidence_discovered m ev now)) a) =
          evidence_discovered (heap m a)
          @ [if discovered_at ev = None then ev\<lparr>discovered_at := Some now\<rparr> else ev])
   \<and> (check_for_evidence_discovery act det scenario game_session draws now = Some found \<longrightarrow>
      (\<forall>item \<in> set (get_or [] (evidence_items scenario)).
         ev_id item \<noteq> None \<and> ev_id item \<noteq> Some []) \<longrightarrow>
      ev_id found \<notin> ev_id ` set (evidence_discovered game_session))"
proof -
  have "fst (add_evidence_discovered m ev now)
      \<and> evidence_discovered (heap (snd (add_evidence_discovered m ev now)) a) =
          evidence_discovered (heap m a)
          @ [if discovered_at ev = None then ev\<lparr>discovered_at := Some now\<rparr> else ev]"
    if "current_session m = Some a"
    using that
    by (simp add: add_evidence_discovered_def Let_def modify_def
        save_session_Some session_or_current_def)
  then show ?thesis
    using resolver_skips_discovered by blast
qed

theorem add_evidence_discovered_appends_witness:
  "current_session started_manager = Some 0
   \<and> fst (add_evidence_discovered started_manager first_item 3)
   \<and> evidence_discovered (heap (snd (add_evidence_discovered started_manager first_item 3)) 0)
       = evidence_discovered (heap started_manager 0) @ [first_item\<lparr>discovered_at := Some 3\<rparr>]
   \<and> ev_id (formatted_evidence second_item 0 3)
       \<notin> ev_id ` set (evidence_discovered blank_session)"
proof -
  have h1: "current_session started_manager = Some 0"
    using started_ok by simp
  have h2: "\<forall>item \<in> set (get_or [] (evidence_items two_item_scenario)).
              ev_id item \<noteq> None \<and> ev_id item \<noteq> Some []"
    by (simp add: two_item_scenario_def get_or_def first_item_def second_item_def)
  have h3: "discovered_at first_item = None"
    by (simp add: first_item_def)
  show ?thesis
    using h1 h2 h3 resolver_example
      add_evidence_discovered_appends [of started_manager 0 first_item 3
        "''examine_logs''" "''check the mail server''" two_item_scenario blank_session
        fail_then_succeed "formatted_evidence second_item 0 3"]
    by simp
qed

end
